theory Spec2Isabelle
  imports Complex_Main "HOL-Library.Word"
begin

section \<open>Data model\<close>

text \<open>
  A point cloud is an \<open>n x 3\<close> array; each row is \<open>(x, y, z)\<close> with \<open>x\<close> the
  column and \<open>y\<close> the row of the pixel. The lookups work on integer clouds
  (\<open>voxel\<close>) and on keypoints, the rows of an \<open>n x 2\<close> integer array. Clouds that
  went through a transform are arrays of floats, modelled over the reals. A depth image
  is a list of rows. Python's exceptions are values of \<open>error\<close>.
\<close>

type_synonym voxel = "int \<times> int \<times> int"
type_synonym keypoint = "int \<times> int"
type_synonym point = "real \<times> real \<times> real"
type_synonym vec4 = "real \<times> real \<times> real \<times> real"
type_synonym mat4 = "vec4 \<times> vec4 \<times> vec4 \<times> vec4"

datatype error = IndexError | ValueError | OverflowError

section \<open>Depth image to point cloud (\<open>depth_to_voxel\<close>)\<close>

text \<open>
  A sample of the depth image is an integer (an 8-bit image read from a file, say) or a
  float (the output of the depth estimator); \<open>NonFiniteSample\<close> is a NaN or an
  infinity. The scale is the Python number the caller passes: an integer (the default
  is \<open>1\<close>), a float, or a NaN or an infinity. The third component of a point is a
  number, or \<open>NonFinite\<close> for a NaN or an infinity, which compare unequal to 0.
  Floats are modelled over the reals.
\<close>

datatype sample = IntSample int | FloatSample real | NonFiniteSample

datatype scale = IntScale int | FloatScale real | NonFiniteScale

datatype zvalue = Num real | NonFinite

type_synonym pixel = "int \<times> int \<times> zvalue"

text \<open>
  What a call does: it returns a cloud, it raises, or NumPy leaves the entries of the
  result open (\<open>Undetermined\<close>, see \<open>astype_int16\<close>).
\<close>

datatype depth_result = Cloud "pixel list" | Raises error | Undetermined

definition fits_int16 :: "int \<Rightarrow> bool" where
  "fits_int16 k = (- 32768 \<le> k \<and> k \<le> 32767)"

text \<open>The conversion of a float to an integer drops the fraction.\<close>

definition trunc :: "real \<Rightarrow> int" where
  "trunc r = (if 0 \<le> r then \<lfloor>r\<rfloor> else \<lceil>r\<rceil>)"

text \<open>
  \<open>img.astype(np.int16)\<close>, entry by entry: an integer keeps its low 16 bits, read as
  two's complement; a float is truncated toward zero. The conversion of a float whose
  truncation is not an \<open>int16\<close>, or of a NaN or an infinity, is undefined in C, and
  NumPy does not fix its result: \<open>None\<close>.
\<close>

definition astype_int16 :: "sample \<Rightarrow> 16 word option" where
  "astype_int16 s =
     (case s of
        IntSample k \<Rightarrow> Some (word_of_int k)
      | FloatSample r \<Rightarrow> if fits_int16 (trunc r) then Some (word_of_int (trunc r)) else None
      | NonFiniteSample \<Rightarrow> None)"

definition astype_int16_array :: "sample list list \<Rightarrow> 16 word list list option" where
  "astype_int16_array img = those (map (\<lambda>r. those (map astype_int16 r)) img)"

text \<open>
  The product \<open>... * scale\<close> of an \<open>int16\<close> array with a Python number. With a
  Python integer the result stays \<open>int16\<close> and wraps around; an integer that is not
  an \<open>int16\<close> raises \<open>OverflowError\<close> (NumPy 2; older versions widen the result
  instead). With a float the product is a float, and with a NaN or an infinity every
  entry of the product is a NaN or an infinity.
\<close>

definition times_scale :: "scale \<Rightarrow> error + (16 word \<Rightarrow> zvalue)" where
  "times_scale scale =
     (case scale of
        IntScale k \<Rightarrow>
          if fits_int16 k then Inr (\<lambda>w. Num (of_int (sint (w * word_of_int k))))
          else Inl OverflowError
      | FloatScale r \<Rightarrow> Inr (\<lambda>w. Num (of_int (sint w) * r))
      | NonFiniteScale \<Rightarrow> Inr (\<lambda>w. NonFinite))"

text \<open>\<open>np.meshgrid(x, y)\<close>: \<open>xx[j][i] = x[i]\<close> and \<open>yy[j][i] = y[j]\<close>.\<close>

definition meshgrid :: "int list \<Rightarrow> int list \<Rightarrow> int list list \<times> int list list" where
  "meshgrid x y = (map (\<lambda>_. x) y, map (\<lambda>b. map (\<lambda>_. b) x) y)"

text \<open>\<open>np.stack((a, b, c), axis=2)\<close> on three arrays of one shape.\<close>

definition stack_axis2 ::
  "'a list list \<Rightarrow> 'b list list \<Rightarrow> 'c list list \<Rightarrow> ('a \<times> 'b \<times> 'c) list list" where
  "stack_axis2 a b c = map (\<lambda>(ra, rb, rc). zip ra (zip rb rc)) (zip a (zip b c))"

text \<open>
  The function is the same text in both source files. \<open>np.reshape\<close> to
  \<open>(h * w, 3)\<close> is the row-major concatenation of the rows. The product is formed
  before anything is read from it, so a scale that raises does so for every image.
\<close>

definition depth_to_voxel :: "sample list list \<Rightarrow> scale \<Rightarrow> depth_result" where
  "depth_to_voxel img scale =
     (let x = map int [0..<(case img of [] \<Rightarrow> 0 | r # _ \<Rightarrow> length r)];
          y = map int [0..<length img];
          (xx, yy) = meshgrid x y
      in case times_scale scale of
           Inl e \<Rightarrow> Raises e
         | Inr product_with \<Rightarrow>
             (case astype_int16_array img of
                None \<Rightarrow> Undetermined
              | Some img16 \<Rightarrow>
                  let pixels = stack_axis2 xx yy (map (map product_with) img16);
                      pixels = concat pixels;
                      pixels = filter (\<lambda>(px, py, pz). pz \<noteq> Num 0) pixels
                  in Cloud pixels))"

text \<open>A two-dimensional array has rows of one length.\<close>

definition is_image :: "sample list list \<Rightarrow> bool" where
  "is_image img =
     (\<forall>r \<in> set img. length r = (case img of [] \<Rightarrow> 0 | r0 # _ \<Rightarrow> length r0))"


fun truncated :: "sample \<Rightarrow> int" where
  "truncated (IntSample k) = k"
| "truncated (FloatSample r) = trunc r"
| "truncated NonFiniteSample = 0"

fun scale_value :: "scale \<Rightarrow> real" where
  "scale_value (IntScale k) = of_int k"
| "scale_value (FloatScale r) = r"
| "scale_value NonFiniteScale = 0"

text \<open>
  The inputs on which no 16-bit value overflows: the scale is a float, or an integer in
  the \<open>int16\<close> range; every sample is finite and its truncation is in the \<open>int16\<close>
  range; with an integer scale, so is the product of the two.
\<close>

definition finite_scale :: "scale \<Rightarrow> bool" where
  "finite_scale scale =
     (case scale of IntScale k \<Rightarrow> fits_int16 k | FloatScale r \<Rightarrow> True | NonFiniteScale \<Rightarrow> False)"

definition sample_in_range :: "sample \<Rightarrow> bool" where
  "sample_in_range s = (s \<noteq> NonFiniteSample \<and> fits_int16 (truncated s))"

definition product_ok :: "scale \<Rightarrow> sample \<Rightarrow> bool" where
  "product_ok scale s =
     (sample_in_range s
      \<and> (case scale of IntScale k \<Rightarrow> fits_int16 (truncated s * k) | _ \<Rightarrow> True))"

definition products_in_range :: "sample list list \<Rightarrow> scale \<Rightarrow> bool" where
  "products_in_range img scale =
     (finite_scale scale \<and> (\<forall>r \<in> set img. \<forall>s \<in> set r. product_ok scale s))"


definition all_samples_zero :: "sample list list \<Rightarrow> bool" where
  "all_samples_zero img = (\<forall>r \<in> set img. \<forall>s \<in> set r. s = IntSample 0 \<or> s = FloatSample 0)"

text \<open>
  In row-major scan order, the point \<open>(x, y, t * c)\<close> of every pixel for which the
  product of its truncated sample \<open>t\<close> with \<open>c\<close> is not zero.
\<close>

definition truncated_pixels :: "sample list list \<Rightarrow> real \<Rightarrow> pixel list" where
  "truncated_pixels img c =
     concat (map (\<lambda>y. concat (map (\<lambda>x. if of_int (truncated (img ! y ! x)) * c \<noteq> 0
                                            then [(int x, int y,
                                                   Num (of_int (truncated (img ! y ! x)) * c))]
                                            else [])
                                  [0..<length (img ! y)]))
                 [0..<length img])"

text \<open>
  The converter as the specification words it: for every pixel \<open>(x, y)\<close> with depth
  \<open>d\<close>, the point \<open>(x, y, d * scale)\<close> if \<open>d \<noteq> 0\<close>, in row-major order.
\<close>

definition toPointCloud_spec :: "real list list \<Rightarrow> real \<Rightarrow> pixel list" where
  "toPointCloud_spec depth c =
     concat (map (\<lambda>y. concat (map (\<lambda>x. if depth ! y ! x \<noteq> 0
                                            then [(int x, int y, Num (depth ! y ! x * c))] else [])
                                  [0..<length (depth ! y)]))
                 [0..<length depth])"

text \<open>
  The error kind the specification names for a depth map without valid points, and the
  converter that signals it. The source files define no such error.
\<close>

datatype spec_error = EmptyPointCloud

definition toPointCloud_checked :: "real list list \<Rightarrow> real \<Rightarrow> spec_error + pixel list" where
  "toPointCloud_checked depth c =
     (let cloud = toPointCloud_spec depth c
      in if cloud = [] then Inl EmptyPointCloud else Inr cloud)"

section \<open>Coordinate lookup (\<open>get_3d_kps\<close>, \<open>find_closest_3d_match\<close>)\<close>

text \<open>
  The two nested loops of \<open>get_3d_kps\<close>: the inner one appends the first voxel that
  matches and breaks, the outer one runs it for every keypoint. \<open>kps_3d\<close> is the
  list being built.
\<close>

fun voxel_loop ::
  "(keypoint \<Rightarrow> voxel \<Rightarrow> bool) \<Rightarrow> keypoint \<Rightarrow> voxel list \<Rightarrow> voxel list \<Rightarrow> voxel list" where
  "voxel_loop cond i [] kps_3d = kps_3d"
| "voxel_loop cond i (v # voxels) kps_3d =
     (if cond i v then kps_3d @ [v] else voxel_loop cond i voxels kps_3d)"

fun kps_loop ::
  "(keypoint \<Rightarrow> voxel \<Rightarrow> bool) \<Rightarrow> voxel list \<Rightarrow> keypoint list \<Rightarrow> voxel list \<Rightarrow> voxel list" where
  "kps_loop cond voxels [] kps_3d = kps_3d"
| "kps_loop cond voxels (i # kps) kps_3d =
     kps_loop cond voxels kps (voxel_loop cond i voxels kps_3d)"

text \<open>\<open>karl-homo-toy-cars.py\<close>: \<open>i[1] == v[0] and i[0] == v[1]\<close>.\<close>

definition get_3d_kps_karl :: "voxel list \<Rightarrow> keypoint list \<Rightarrow> voxel list" where
  "get_3d_kps_karl voxels kps =
     kps_loop (\<lambda>i v. snd i = fst v \<and> fst i = fst (snd v)) voxels kps []"

text \<open>\<open>utils/utils.py\<close>: \<open>i[0] == v[0] and i[1] == v[1]\<close>.\<close>

definition get_3d_kps_utils :: "voxel list \<Rightarrow> keypoint list \<Rightarrow> voxel list" where
  "get_3d_kps_utils voxels kps =
     kps_loop (\<lambda>i v. fst i = fst v \<and> snd i = fst (snd v)) voxels kps []"

text \<open>A keypoint that no voxel of the cloud matches, under either comparison.\<close>

definition absent_utils :: "voxel list \<Rightarrow> keypoint \<Rightarrow> bool" where
  "absent_utils voxels i = (\<forall>v \<in> set voxels. \<not> (fst i = fst v \<and> snd i = fst (snd v)))"

definition absent_karl :: "voxel list \<Rightarrow> keypoint \<Rightarrow> bool" where
  "absent_karl voxels i = (\<forall>v \<in> set voxels. \<not> (snd i = fst v \<and> fst i = fst (snd v)))"

text \<open>
  The cloud is an \<open>int64\<close> array, and \<open>x0\<close>, \<open>y0\<close> become entries of one:
  differences, squares and sums wrap around at 64 bits.
\<close>

definition int64 :: "int \<Rightarrow> 64 word" where
  "int64 k = word_of_int k"

text \<open>
  \<open>np.argmin\<close>: the index of the first occurrence of the least entry, the entries
  compared as signed numbers.
\<close>

fun argmin_scan :: "64 word list \<Rightarrow> nat \<Rightarrow> nat \<Rightarrow> 64 word \<Rightarrow> nat" where
  "argmin_scan [] k best least = best"
| "argmin_scan (v # vs) k best least =
     (if v <s least then argmin_scan vs (Suc k) k v else argmin_scan vs (Suc k) best least)"

definition argmin :: "64 word list \<Rightarrow> nat" where
  "argmin xs = (case xs of [] \<Rightarrow> 0 | v # vs \<Rightarrow> argmin_scan vs 1 0 v)"

text \<open>
  The function is the same text in both source files. \<open>matrix_3d[:, :2] - arry_x0_y0\<close>
  is an \<open>n x 2\<close> array; \<open>np.sum(..., axis=0)\<close> adds its rows, so the result has two
  entries, one per column, and \<open>index\<close> is 0 or 1. With no rows the subtraction cannot
  broadcast \<open>(0, 2)\<close> against \<open>(0,)\<close> and raises; \<open>matrix_3d[index]\<close> raises when
  \<open>index\<close> is not a row.
\<close>

definition find_closest_3d_match :: "int \<Rightarrow> int \<Rightarrow> voxel list \<Rightarrow> error + voxel" where
  "find_closest_3d_match x0 y0 matrix_3d =
     (if matrix_3d = [] then Inl ValueError
      else
        let arry_x0_y0 = map (\<lambda>_. (int64 x0, int64 y0)) [0..<length matrix_3d];
            squares = map (\<lambda>((vx, vy, vz), (ax, ay)). ((int64 vx - ax)\<^sup>2, (int64 vy - ay)\<^sup>2))
                        (zip matrix_3d arry_x0_y0);
            index = argmin [sum_list (map fst squares), sum_list (map snd squares)]
        in if index < length matrix_3d then Inr (matrix_3d ! index) else Inl IndexError)"

text \<open>
  The lookup as the specification words it: the cloud point with the least squared
  distance in the pixel plane to \<open>(x0, y0)\<close>, the first one in cloud order on a tie.
\<close>

definition sq_dist_2d :: "int \<Rightarrow> int \<Rightarrow> voxel \<Rightarrow> int" where
  "sq_dist_2d x0 y0 p = (fst p - x0)\<^sup>2 + (fst (snd p) - y0)\<^sup>2"

fun nearestMatch_spec :: "int \<Rightarrow> int \<Rightarrow> voxel list \<Rightarrow> voxel option" where
  "nearestMatch_spec x0 y0 [] = None"
| "nearestMatch_spec x0 y0 (p # ps) =
     Some (foldl (\<lambda>best q. if sq_dist_2d x0 y0 q < sq_dist_2d x0 y0 best then q else best) p ps)"

section \<open>Applying a 4x4 matrix to a cloud (\<open>get_transformed_points\<close>)\<close>

text \<open>\<open>np.dot(H_matrix, column)\<close> for a 4x4 matrix, given by its rows.\<close>

definition dot4 :: "vec4 \<Rightarrow> vec4 \<Rightarrow> real" where
  "dot4 r c = (case r of (r0, r1, r2, r3) \<Rightarrow> case c of (c0, c1, c2, c3) \<Rightarrow>
     r0 * c0 + r1 * c1 + r2 * c2 + r3 * c3)"

definition mat_vec :: "mat4 \<Rightarrow> vec4 \<Rightarrow> vec4" where
  "mat_vec H c = (case H of (h0, h1, h2, h3) \<Rightarrow> (dot4 h0 c, dot4 h1 c, dot4 h2 c, dot4 h3 c))"

text \<open>
  \<open>utils/utils.py\<close>: the column is \<open>[keypoints[i][1], keypoints[i][0], keypoints[i][2], 1]\<close>
  and the row written back is \<open>[new_value[0][1], new_value[0][0], new_value[0][2]]\<close>.
\<close>

definition get_transformed_points_utils :: "point list \<Rightarrow> mat4 \<Rightarrow> point list" where
  "get_transformed_points_utils keypoints H_matrix =
     map (\<lambda>(k0, k1, k2).
            let keypoint_3dim = (k1, k0, k2, 1);
                (n0, n1, n2, n3) = mat_vec H_matrix keypoint_3dim
            in (n1, n0, n2))
         keypoints"

text \<open>
  \<open>karl-homo-toy-cars.py\<close>: the same, with the first three entries of the product
  divided by the fourth. Dividing by a zero fourth entry gives a row of infinities or
  NaNs, which no real triple denotes: such a row is \<open>None\<close>.
\<close>

definition get_transformed_points_karl :: "point list \<Rightarrow> mat4 \<Rightarrow> point option list" where
  "get_transformed_points_karl keypoints H_matrix =
     map (\<lambda>(k0, k1, k2).
            let keypoint_3dim = (k1, k0, k2, 1);
                (t0, t1, t2, t3) = mat_vec H_matrix keypoint_3dim
            in if t3 = 0 then None
               else let (n0, n1, n2) = (t0 / t3, t1 / t3, t2 / t3) in Some (n1, n0, n2))
         keypoints"

definition identity4 :: mat4 where
  "identity4 = ((1, 0, 0, 0), (0, 1, 0, 0), (0, 0, 1, 0), (0, 0, 0, 1))"

definition translation4 :: "real \<Rightarrow> real \<Rightarrow> real \<Rightarrow> mat4" where
  "translation4 tx ty tz = ((1, 0, 0, tx), (0, 1, 0, ty), (0, 0, 1, tz), (0, 0, 0, 1))"

text \<open>
  Modelled from the spec: \<open>homo3d.get_transformed_points\<close>, which the registration loop
  calls, is not among the source files. Section 4.4 of the specification: each point is
  homogenized to \<open>(x, y, z, 1)\<close> and multiplied by the matrix; the components are used
  directly when \<open>normalize\<close> is false (\<open>apply_rigid_spec\<close>), and the first three are
  divided by the fourth when it is true (\<open>None\<close> where the fourth is zero).
\<close>

definition apply_rigid_spec :: "point list \<Rightarrow> mat4 \<Rightarrow> point list" where
  "apply_rigid_spec cloud M =
     map (\<lambda>(x, y, z). case mat_vec M (x, y, z, 1) of (r0, r1, r2, r3) \<Rightarrow> (r0, r1, r2)) cloud"

definition apply_spec :: "mat4 \<Rightarrow> point list \<Rightarrow> bool \<Rightarrow> point option list" where
  "apply_spec M cloud do_normalize =
     (if do_normalize
      then map (\<lambda>(x, y, z). case mat_vec M (x, y, z, 1) of (r0, r1, r2, r3) \<Rightarrow>
                  if r3 = 0 then None else Some (r0 / r3, r1 / r3, r2 / r3)) cloud
      else map Some (apply_rigid_spec cloud M))"

text \<open>The matrix with its first two rows and its first two columns exchanged.\<close>

definition swap_xy_vec :: "vec4 \<Rightarrow> vec4" where
  "swap_xy_vec r = (case r of (r0, r1, r2, r3) \<Rightarrow> (r1, r0, r2, r3))"

definition swap_xy_axes :: "mat4 \<Rightarrow> mat4" where
  "swap_xy_axes H =
     (case H of (h0, h1, h2, h3) \<Rightarrow> (swap_xy_vec h1, swap_xy_vec h0, swap_xy_vec h2, swap_xy_vec h3))"

section \<open>The sequence loops of \<open>karl-homo-toy-cars.py\<close>\<close>

text \<open>
  The loop that fills \<open>h_matrixes\<close>. The feature detector and the two matchers are not
  part of the sources: \<open>features a b\<close> stands for what they return on a pair of images,
  namely \<open>orginal_points\<close>, \<open>keypoints_prime\<close> and \<open>bf_matches\<close>.
  \<open>homo3d.homo_rigid_transform_3D\<close> is the parameter \<open>solver\<close>. The lists
  \<open>m_kp1\<close>, \<open>m_kp2\<close> and the result of \<open>q9.ransac_loop\<close> are not used afterwards
  and are left out.
\<close>

fun bf_loop ::
  "voxel list \<Rightarrow> voxel list \<Rightarrow> (nat \<times> nat) list \<Rightarrow> voxel list \<Rightarrow> voxel list
     \<Rightarrow> error + (voxel list \<times> voxel list)" where
  "bf_loop kps1_3d kps2_3d [] m_kps1_3d m_kps2_3d = Inr (m_kps1_3d, m_kps2_3d)"
| "bf_loop kps1_3d kps2_3d (m # bf_matches) m_kps1_3d m_kps2_3d =
     (if fst m < length kps1_3d \<and> snd m < length kps2_3d
      then bf_loop kps1_3d kps2_3d bf_matches
             (m_kps1_3d @ [kps1_3d ! fst m]) (m_kps2_3d @ [kps2_3d ! snd m])
      else Inl IndexError)"

definition h_matrix_body ::
  "('img \<Rightarrow> 'img \<Rightarrow> keypoint list \<times> keypoint list \<times> (nat \<times> nat) list)
     \<Rightarrow> (voxel list \<Rightarrow> voxel list \<Rightarrow> error + 'h)
     \<Rightarrow> 'img list \<Rightarrow> voxel list list \<Rightarrow> nat \<Rightarrow> error + 'h" where
  "h_matrix_body features solver cv2_imgs input_voxels i =
     (let (orginal_points, keypoints_prime, bf_matches) =
            features (cv2_imgs ! i) (cv2_imgs ! (i + 1))
      in if length input_voxels < 2 then Inl IndexError
         else
           let kps1_3d = get_3d_kps_karl (input_voxels ! 0) orginal_points;
               kps2_3d = get_3d_kps_karl (input_voxels ! 1) keypoints_prime
           in (case bf_loop kps1_3d kps2_3d bf_matches [] [] of
                 Inl e \<Rightarrow> Inl e
               | Inr (m_kps1_3d, m_kps2_3d) \<Rightarrow> solver m_kps2_3d m_kps1_3d))"

fun h_matrix_steps ::
  "('img \<Rightarrow> 'img \<Rightarrow> keypoint list \<times> keypoint list \<times> (nat \<times> nat) list)
     \<Rightarrow> (voxel list \<Rightarrow> voxel list \<Rightarrow> error + 'h)
     \<Rightarrow> 'img list \<Rightarrow> voxel list list \<Rightarrow> nat list \<Rightarrow> 'h list \<Rightarrow> error + 'h list" where
  "h_matrix_steps features solver cv2_imgs input_voxels [] h_matrixes = Inr h_matrixes"
| "h_matrix_steps features solver cv2_imgs input_voxels (i # rest) h_matrixes =
     (case h_matrix_body features solver cv2_imgs input_voxels i of
        Inl e \<Rightarrow> Inl e
      | Inr Hmatrix \<Rightarrow>
          h_matrix_steps features solver cv2_imgs input_voxels rest (h_matrixes @ [Hmatrix]))"

definition h_matrix_loop ::
  "('img \<Rightarrow> 'img \<Rightarrow> keypoint list \<times> keypoint list \<times> (nat \<times> nat) list)
     \<Rightarrow> (voxel list \<Rightarrow> voxel list \<Rightarrow> error + 'h)
     \<Rightarrow> 'img list \<Rightarrow> voxel list list \<Rightarrow> error + 'h list" where
  "h_matrix_loop features solver cv2_imgs input_voxels =
     h_matrix_steps features solver cv2_imgs input_voxels [0..<length cv2_imgs - 1] []"

text \<open>
  The loop that fills \<open>new_3d_pts\<close>. \<open>homo3d.get_transformed_points\<close> is the parameter
  \<open>get_transformed_points\<close>; \<open>input_voxels[0]\<close> raises on an empty list and
  \<open>h_matrixes[i-1]\<close> on a list that is too short.
\<close>

fun registration_steps ::
  "('c \<Rightarrow> 'h \<Rightarrow> 'c) \<Rightarrow> 'c list \<Rightarrow> 'h list \<Rightarrow> nat list \<Rightarrow> 'c list \<Rightarrow> error + 'c list" where
  "registration_steps get_transformed_points input_voxels h_matrixes [] new_3d_pts =
     Inr new_3d_pts"
| "registration_steps get_transformed_points input_voxels h_matrixes (i # rest) new_3d_pts =
     (if i \<noteq> 0
      then (if i - 1 < length h_matrixes
            then registration_steps get_transformed_points input_voxels h_matrixes rest
                   (new_3d_pts @ [get_transformed_points (input_voxels ! i) (h_matrixes ! (i - 1))])
            else Inl IndexError)
      else registration_steps get_transformed_points input_voxels h_matrixes rest new_3d_pts)"

definition registration_loop ::
  "('c \<Rightarrow> 'h \<Rightarrow> 'c) \<Rightarrow> 'c list \<Rightarrow> 'h list \<Rightarrow> error + 'c list" where
  "registration_loop get_transformed_points input_voxels h_matrixes =
     (case input_voxels of
        [] \<Rightarrow> Inl IndexError
      | v0 # _ \<Rightarrow>
          registration_steps get_transformed_points input_voxels h_matrixes
            [0..<length input_voxels] [v0])"

text \<open>
  The registrar as the specification words it: frame \<open>i\<close> goes through the pairwise
  transforms \<open>i \<rightarrow> i-1\<close>, \<open>i-1 \<rightarrow> i-2\<close>, ..., \<open>1 \<rightarrow> 0\<close> in this order, where
  \<open>transforms ! k\<close> maps frame \<open>k+1\<close> onto frame \<open>k\<close>.
\<close>

definition registerSequence_spec :: "('c \<Rightarrow> 'h \<Rightarrow> 'c) \<Rightarrow> 'c list \<Rightarrow> 'h list \<Rightarrow> 'c list" where
  "registerSequence_spec app clouds transforms =
     map (\<lambda>i. foldl app (clouds ! i) (rev (take i transforms))) [0..<length clouds]"

section \<open>Properties of \<open>depth_to_voxel\<close>\<close>

text \<open>
  On an image, the grids, the stacking and the reshape amount to listing the pixels in
  row-major order.
\<close>

lemma stack_rows:
  assumes "\<forall>r \<in> set img. length r = w"
  shows "stack_axis2 (map (\<lambda>_. map int [0..<w]) (map int [0..<length img]))
           (map (\<lambda>b. map (\<lambda>_. b) (map int [0..<w])) (map int [0..<length img]))
           (map (map f) img)
         = map (\<lambda>y. map (\<lambda>x. (int x, int y, f (img ! y ! x))) [0..<length (img ! y)]) [0..<length img]"
proof (rule nth_equalityI)
  show "length (stack_axis2 (map (\<lambda>_. map int [0..<w]) (map int [0..<length img]))
           (map (\<lambda>b. map (\<lambda>_. b) (map int [0..<w])) (map int [0..<length img]))
           (map (map f) img)) = length (map (\<lambda>y. map (\<lambda>x. (int x, int y, f (img ! y ! x))) [0..<length (img ! y)]) [0..<length img])"
    by (simp add: stack_axis2_def)
next
  fix i
  assume "i < length (stack_axis2 (map (\<lambda>_. map int [0..<w]) (map int [0..<length img]))
           (map (\<lambda>b. map (\<lambda>_. b) (map int [0..<w])) (map int [0..<length img]))
           (map (map f) img))"
  then have i: "i < length img" by (simp add: stack_axis2_def)
  then have len: "length (img ! i) = w" using assms by simp
  have "zip (map int [0..<w]) (zip (map (\<lambda>_. int i) (map int [0..<w])) (map f (img ! i)))
        = map (\<lambda>x. (int x, int i, f (img ! i ! x))) [0..<w]"
    using len by (intro nth_equalityI) simp_all
  then show "stack_axis2 (map (\<lambda>_. map int [0..<w]) (map int [0..<length img]))
           (map (\<lambda>b. map (\<lambda>_. b) (map int [0..<w])) (map int [0..<length img]))
           (map (map f) img) ! i = map (\<lambda>y. map (\<lambda>x. (int x, int y, f (img ! y ! x))) [0..<length (img ! y)]) [0..<length img] ! i"
    using i len by (simp add: stack_axis2_def)
qed

lemma is_image_width:
  "is_image img \<Longrightarrow> \<forall>r \<in> set img. length r = (case img of [] \<Rightarrow> 0 | r0 # _ \<Rightarrow> length r0)"
  by (simp add: is_image_def)

text \<open>Where nothing overflows, the 16-bit values are the exact ones.\<close>

lemma those_map_Some:
  "\<forall>x \<in> set xs. f x = Some (g x) \<Longrightarrow> those (map f xs) = Some (map g xs)"
  by (induction xs) simp_all

lemma sint_word_of_int_fits:
  "fits_int16 k \<Longrightarrow> sint (word_of_int k :: 16 word) = k"
  by (simp add: sint_sbintrunc' signed_take_bit_int_eq_self fits_int16_def)

lemma signed_word_of_int_fits:
  assumes "fits_int16 k"
  shows "(signed (word_of_int k :: 16 word) :: real) = of_int k"
proof -
  have "(signed (word_of_int k :: 16 word) :: real) = of_int (sint (word_of_int k :: 16 word))"
    by (rule of_int_sint [symmetric])
  also have "\<dots> = of_int k"
    by (simp only: sint_word_of_int_fits [OF assms])
  finally show ?thesis .
qed

lemma astype_in_range:
  "sample_in_range s \<Longrightarrow> astype_int16 s = Some (word_of_int (truncated s))"
  by (cases s) (simp_all add: astype_int16_def sample_in_range_def)

lemma astype_array_in_range:
  assumes "\<forall>r \<in> set img. \<forall>s \<in> set r. sample_in_range s"
  shows "astype_int16_array img = Some (map (map (\<lambda>s. word_of_int (truncated s))) img)"
proof -
  have "those (map astype_int16 r) = Some (map (\<lambda>s. word_of_int (truncated s)) r)"
    if "r \<in> set img" for r
    using assms that by (intro those_map_Some) (simp add: astype_in_range)
  then show ?thesis
    unfolding astype_int16_array_def
    by (intro those_map_Some [where f = "\<lambda>r. those (map astype_int16 r)"]) simp
qed

lemma times_scale_exact:
  assumes "finite_scale scale"
  shows "\<exists>pw. times_scale scale = Inr pw
          \<and> (\<forall>s. product_ok scale s
                \<longrightarrow> pw (word_of_int (truncated s)) = Num (of_int (truncated s) * scale_value scale))"
proof (cases scale)
  case (IntScale k)
  have "Num (of_int (sint ((word_of_int (truncated s) :: 16 word) * word_of_int k)))
        = Num (of_int (truncated s) * of_int k)" if "fits_int16 (truncated s * k)" for s
  proof -
    have "(word_of_int (truncated s) :: 16 word) * word_of_int k = word_of_int (truncated s * k)"
      by simp
    then show ?thesis using sint_word_of_int_fits [OF that] by simp
  qed
  with IntScale assms show ?thesis
    by (simp add: times_scale_def finite_scale_def product_ok_def)
next
  case (FloatScale r)
  then show ?thesis
    by (simp add: times_scale_def sample_in_range_def signed_word_of_int_fits product_ok_def)
next
  case NonFiniteScale
  with assms show ?thesis by (simp add: finite_scale_def)
qed

lemma filter_row_pixels:
  assumes "\<forall>x \<in> set xs. g x = Num (h x)"
  shows "filter (\<lambda>(px, py, pz). pz \<noteq> Num 0) (map (\<lambda>x. (a x, b, g x)) xs)
         = concat (map (\<lambda>x. if h x \<noteq> 0 then [(a x, b, Num (h x))] else []) xs)"
  using assms by (induction xs) auto

lemma depth_to_voxel_in_range:
  assumes "is_image img" and "products_in_range img scale"
  shows "depth_to_voxel img scale = Cloud (truncated_pixels img (scale_value scale))"
proof -
  from assms(2) have fin: "finite_scale scale"
    and ok: "\<forall>r \<in> set img. \<forall>s \<in> set r. product_ok scale s"
    by (simp_all add: products_in_range_def)
  then have rng: "\<forall>r \<in> set img. \<forall>s \<in> set r. sample_in_range s"
    by (simp add: product_ok_def)
  obtain pw where pw: "times_scale scale = Inr pw"
    and ex: "\<forall>s. product_ok scale s
            \<longrightarrow> pw (word_of_int (truncated s)) = Num (of_int (truncated s) * scale_value scale)"
    using times_scale_exact [OF fin] by blast
  let ?f = "\<lambda>s. pw (word_of_int (truncated s))"
  have rows: "stack_axis2
           (map (\<lambda>_. map int [0..<(case img of [] \<Rightarrow> 0 | r0 # _ \<Rightarrow> length r0)]) (map int [0..<length img]))
           (map (\<lambda>b. map (\<lambda>_. b) (map int [0..<(case img of [] \<Rightarrow> 0 | r0 # _ \<Rightarrow> length r0)])) (map int [0..<length img]))
           (map (map ?f) img)
         = map (\<lambda>y. map (\<lambda>x. (int x, int y, ?f (img ! y ! x))) [0..<length (img ! y)]) [0..<length img]"
    by (rule stack_rows [OF is_image_width [OF assms(1)]])
  have "depth_to_voxel img scale
        = Cloud (filter (\<lambda>(px, py, pz). pz \<noteq> Num 0)
            (concat (map (\<lambda>y. map (\<lambda>x. (int x, int y, ?f (img ! y ! x))) [0..<length (img ! y)])
               [0..<length img])))"
    using rows
    by (simp add: depth_to_voxel_def meshgrid_def pw astype_array_in_range [OF rng] comp_def)
  also have "filter (\<lambda>(px, py, pz). pz \<noteq> Num 0)
            (concat (map (\<lambda>y. map (\<lambda>x. (int x, int y, ?f (img ! y ! x))) [0..<length (img ! y)])
               [0..<length img]))
        = concat (map (\<lambda>y. filter (\<lambda>(px, py, pz). pz \<noteq> Num 0)
              (map (\<lambda>x. (int x, int y, ?f (img ! y ! x))) [0..<length (img ! y)]))
            [0..<length img])"
    by (simp add: filter_concat comp_def)
  also have "\<dots> = truncated_pixels img (scale_value scale)"
    unfolding truncated_pixels_def
  proof (rule arg_cong [where f = concat], rule map_cong [OF refl])
    fix y assume "y \<in> set [0..<length img]"
    then have y: "img ! y \<in> set img" by simp
    have "\<forall>x \<in> set [0..<length (img ! y)].
            ?f (img ! y ! x) = Num (of_int (truncated (img ! y ! x)) * scale_value scale)"
    proof
      fix x assume "x \<in> set [0..<length (img ! y)]"
      then have "img ! y ! x \<in> set (img ! y)" by simp
      with y ok have "product_ok scale (img ! y ! x)"
        by blast
      with ex show "?f (img ! y ! x) = Num (of_int (truncated (img ! y ! x)) * scale_value scale)"
        by blast
    qed
    then show "filter (\<lambda>(px, py, pz). pz \<noteq> Num 0)
              (map (\<lambda>x. (int x, int y, ?f (img ! y ! x))) [0..<length (img ! y)])
          = concat (map (\<lambda>x. if of_int (truncated (img ! y ! x)) * scale_value scale \<noteq> 0
                  then [(int x, int y, Num (of_int (truncated (img ! y ! x)) * scale_value scale))]
                  else []) [0..<length (img ! y)])"
      by (rule filter_row_pixels)
  qed
  finally show ?thesis .
qed







text \<open>
  Outside these inputs: an integer scale beyond the \<open>int16\<close> range raises, the
  product \<open>200 * 200\<close> wraps around, the conversion of the float 40000 is not
  determined, and a NaN scale keeps the pixels of an all-zero image.
\<close>

lemma depth_to_voxel_outside_range:
  "depth_to_voxel [[IntSample 1]] (IntScale 40000) = Raises OverflowError
   \<and> depth_to_voxel [[IntSample 200]] (IntScale 200) = Cloud [(0, 0, Num (- 25536))]
   \<and> depth_to_voxel [[FloatSample 40000]] (IntScale 1) = Undetermined
   \<and> depth_to_voxel [[IntSample 0, IntSample 0]] NonFiniteScale
       = Cloud [(0, 0, NonFinite), (1, 0, NonFinite)]"
  by (simp add: depth_to_voxel_def meshgrid_def stack_axis2_def astype_int16_def
      astype_int16_array_def times_scale_def fits_int16_def trunc_def)

text \<open>
  Claim C9, as the code has it. For every image whose samples are all zero and every
  scale that is a float or an integer in the \<open>int16\<close> range, \<open>depth_to_voxel\<close>
  returns the empty cloud as its ordinary result; nothing is raised.
\<close>

theorem depth_to_voxel_all_zero:
  assumes "is_image img" and "all_samples_zero img" and "finite_scale scale"
  shows "depth_to_voxel img scale = Cloud []"
proof -
  have z: "truncated s = 0 \<and> s \<noteq> NonFiniteSample" if "s = IntSample 0 \<or> s = FloatSample 0" for s
    using that by (auto simp: trunc_def)
  have tr: "\<forall>r \<in> set img. \<forall>s \<in> set r. truncated s = 0 \<and> s \<noteq> NonFiniteSample"
    using assms(2) z unfolding all_samples_zero_def by blast
  then have "\<forall>r \<in> set img. \<forall>s \<in> set r. product_ok scale s"
    by (auto simp: product_ok_def sample_in_range_def fits_int16_def split: scale.split)
  with assms(3) have "products_in_range img scale" by (simp add: products_in_range_def)
  then have "depth_to_voxel img scale = Cloud (truncated_pixels img (scale_value scale))"
    by (rule depth_to_voxel_in_range [OF assms(1)])
  moreover have "truncated_pixels img (scale_value scale) = []"
  proof -
    have "truncated (img ! y ! x) = 0" if "y < length img" "x < length (img ! y)" for x y
      using tr that by (meson nth_mem)
    then show ?thesis by (simp add: truncated_pixels_def)
  qed
  ultimately show ?thesis by simp
qed

theorem depth_to_voxel_all_zero_witness:
  "is_image [[FloatSample 0, FloatSample 0], [FloatSample 0, FloatSample 0]]
   \<and> all_samples_zero [[FloatSample 0, FloatSample 0], [FloatSample 0, FloatSample 0]]
   \<and> finite_scale (FloatScale (3 / 2))
   \<and> depth_to_voxel [[FloatSample 0, FloatSample 0], [FloatSample 0, FloatSample 0]]
        (FloatScale (3 / 2)) = Cloud []"
proof -
  let ?img = "[[FloatSample 0, FloatSample 0], [FloatSample 0, FloatSample 0]]"
  have h1: "is_image ?img" by (simp add: is_image_def)
  have h2: "all_samples_zero ?img" by (simp add: all_samples_zero_def)
  have h3: "finite_scale (FloatScale (3 / 2))" by (simp add: finite_scale_def)
  from depth_to_voxel_all_zero [OF h1 h2 h3] h1 h2 h3 show ?thesis by blast
qed

text \<open>
  On the all-zero 2 x 2 image the specification's converter signals
  \<open>EmptyPointCloud\<close>; the code returns the empty cloud.
\<close>

theorem empty_cloud_error_counterexample:
  "depth_to_voxel [[IntSample 0, IntSample 0], [IntSample 0, IntSample 0]] (IntScale 1) = Cloud []
   \<and> toPointCloud_checked [[0, 0], [0, 0]] 1 = Inl EmptyPointCloud"
  by (simp add: depth_to_voxel_def meshgrid_def stack_axis2_def astype_int16_def
      astype_int16_array_def times_scale_def fits_int16_def
      toPointCloud_checked_def toPointCloud_spec_def upt_rec)

section \<open>Properties of the coordinate lookups\<close>

text \<open>
  The nested loops collect, keypoint by keypoint, the first voxel that satisfies the
  condition, if there is one.
\<close>

lemma voxel_loop_find:
  "voxel_loop cond i voxels kps_3d
     = kps_3d @ (case find (cond i) voxels of None \<Rightarrow> [] | Some v \<Rightarrow> [v])"
  by (induction voxels) simp_all

lemma kps_loop_map_filter:
  "kps_loop cond voxels kps kps_3d
     = kps_3d @ List.map_filter (\<lambda>i. find (cond i) voxels) kps"
proof (induction kps arbitrary: kps_3d)
  case Nil
  show ?case by (simp add: List.map_filter_simps)
next
  case (Cons i kps)
  show ?case
    by (simp add: Cons.IH voxel_loop_find List.map_filter_simps split: option.split)
qed

lemma map_filter_shorter:
  assumes "i \<in> set kps" and "f i = None"
  shows "length (List.map_filter f kps) < length kps"
proof -
  have "length (List.map_filter f kps) = length (filter (\<lambda>x. f x \<noteq> None) kps)"
    by (simp add: List.map_filter_def)
  also have "\<dots> < length kps"
    using assms by (intro length_filter_less [where x = i]) simp_all
  finally show ?thesis .
qed

lemma kps_loop_shorter:
  assumes "i \<in> set kps" and "\<forall>v \<in> set voxels. \<not> cond i v"
  shows "length (kps_loop cond voxels kps []) < length kps"
proof -
  have "find (cond i) voxels = None" using assms(2) by (simp add: find_None_iff)
  with assms(1) show ?thesis
    by (simp add: kps_loop_map_filter map_filter_shorter)
qed

lemma kps_loop_subset:
  "set (kps_loop cond voxels kps []) \<subseteq> set voxels"
proof -
  have "v \<in> set voxels" if "find (cond i) voxels = Some v" for i v
    using that by (auto simp: find_Some_iff)
  then show ?thesis
    by (auto simp: kps_loop_map_filter List.map_filter_def)
qed

lemma kps_loop_map:
  "kps_loop cond voxels (map f kps) kps_3d = kps_loop (\<lambda>i. cond (f i)) voxels kps kps_3d"
proof (induction kps arbitrary: kps_3d)
  case Nil
  show ?case by simp
next
  case (Cons i kps)
  have "voxel_loop cond (f i) voxels kps_3d = voxel_loop (\<lambda>i. cond (f i)) i voxels kps_3d"
    by (simp add: voxel_loop_find)
  then show ?case by (simp add: Cons.IH)
qed

text \<open>
  Claim C7, as the code has it. For every cloud and every list of requested pixel
  coordinates, the \<open>get_3d_kps\<close> of \<open>utils/utils.py\<close> returns, request by request
  and in the order of the requests, the first cloud point in cloud order whose stored
  \<open>(x, y)\<close> equals the request, and the \<open>get_3d_kps\<close> of
  \<open>karl-homo-toy-cars.py\<close> the first cloud point whose stored \<open>(x, y)\<close> equals the
  request with its two components exchanged (it reads a request as \<open>(row, column)\<close>).
  Either drops a request that no cloud point matches in its reading, without raising, so
  its result is strictly shorter than the list of requests whenever there is such a
  request.
\<close>

theorem get_3d_kps_first_match:
  "get_3d_kps_utils voxels kps
     = List.map_filter (\<lambda>i. find (\<lambda>v. fst i = fst v \<and> snd i = fst (snd v)) voxels) kps
   \<and> get_3d_kps_karl voxels kps
     = List.map_filter (\<lambda>i. find (\<lambda>v. snd i = fst v \<and> fst i = fst (snd v)) voxels) kps
   \<and> ((\<exists>i \<in> set kps. absent_utils voxels i)
        \<longrightarrow> length (get_3d_kps_utils voxels kps) < length kps)
   \<and> ((\<exists>i \<in> set kps. absent_karl voxels i)
        \<longrightarrow> length (get_3d_kps_karl voxels kps) < length kps)"
proof -
  have a: "get_3d_kps_utils voxels kps
     = List.map_filter (\<lambda>i. find (\<lambda>v. fst i = fst v \<and> snd i = fst (snd v)) voxels) kps"
    by (simp add: get_3d_kps_utils_def kps_loop_map_filter)
  have b: "get_3d_kps_karl voxels kps
     = List.map_filter (\<lambda>i. find (\<lambda>v. snd i = fst v \<and> fst i = fst (snd v)) voxels) kps"
    by (simp add: get_3d_kps_karl_def kps_loop_map_filter)
  have c: "length (get_3d_kps_utils voxels kps) < length kps"
    if "\<exists>i \<in> set kps. absent_utils voxels i"
    using that unfolding get_3d_kps_utils_def absent_utils_def
    by (auto intro: kps_loop_shorter)
  have d: "length (get_3d_kps_karl voxels kps) < length kps"
    if "\<exists>i \<in> set kps. absent_karl voxels i"
    using that unfolding get_3d_kps_karl_def absent_karl_def
    by (auto intro: kps_loop_shorter)
  from a b c d show ?thesis by blast
qed

theorem get_3d_kps_first_match_witness:
  "(7, 7) \<in> set [(0, 1), (7, 7), (1, 0)]
   \<and> absent_utils [(1, 0, 5), (0, 1, 5), (1, 0, 9)] (7, 7)
   \<and> absent_karl [(1, 0, 5), (0, 1, 5), (1, 0, 9)] (7, 7)
   \<and> get_3d_kps_utils [(1, 0, 5), (0, 1, 5), (1, 0, 9)] [(0, 1), (7, 7), (1, 0)]
       = [(0, 1, 5), (1, 0, 5)]
   \<and> get_3d_kps_karl [(1, 0, 5), (0, 1, 5), (1, 0, 9)] [(0, 1), (7, 7), (1, 0)]
       = [(1, 0, 5), (0, 1, 5)]
   \<and> length (get_3d_kps_utils [(1, 0, 5), (0, 1, 5), (1, 0, 9)] [(0, 1), (7, 7), (1, 0)]) < 3
   \<and> length (get_3d_kps_karl [(1, 0, 5), (0, 1, 5), (1, 0, 9)] [(0, 1), (7, 7), (1, 0)]) < 3"
proof -
  let ?vs = "[(1, 0, 5), (0, 1, 5), (1, 0, 9)] :: voxel list"
  let ?ks = "[(0, 1), (7, 7), (1, 0)] :: keypoint list"
  have m: "(7, 7) \<in> set ?ks" by simp
  have au: "absent_utils ?vs (7, 7)" by (simp add: absent_utils_def)
  have ak: "absent_karl ?vs (7, 7)" by (simp add: absent_karl_def)
  note t = get_3d_kps_first_match [of ?vs ?ks]
  have u: "get_3d_kps_utils ?vs ?ks = [(0, 1, 5), (1, 0, 5)]"
    using t by (simp add: List.map_filter_simps)
  have k: "get_3d_kps_karl ?vs ?ks = [(1, 0, 5), (0, 1, 5)]"
    using t by (simp add: List.map_filter_simps)
  from t m au have lu: "length (get_3d_kps_utils ?vs ?ks) < length ?ks" by blast
  from t m ak have lk: "length (get_3d_kps_karl ?vs ?ks) < length ?ks" by blast
  from m au ak u k lu lk show ?thesis by simp
qed

text \<open>
  Read as \<open>(x, y)\<close>, the request \<open>(0, 1)\<close> is the second point of the cloud
  \<open>[(1,0,5), (0,1,7)]\<close>, and \<open>karl-homo-toy-cars.py\<close> returns the first; the request
  \<open>(1, 0)\<close> is in the cloud \<open>[(1,0,5)]\<close> and is dropped; the request \<open>(0, 1)\<close>
  is not in that cloud and the result is not shorter.
\<close>

theorem get_3d_kps_karl_reading_counterexample:
  "get_3d_kps_karl [(1, 0, 5), (0, 1, 7)] [(0, 1)] = [(1, 0, 5)]
   \<and> get_3d_kps_karl [(1, 0, 5)] [(1, 0)] = []
   \<and> absent_utils [(1, 0, 5)] (0, 1)
   \<and> length (get_3d_kps_karl [(1, 0, 5)] [(0, 1)]) = length [(0 :: int, 1 :: int)]"
  by (simp add: get_3d_kps_karl_def absent_utils_def)

text \<open>
  Claim C8, as the code has it. The \<open>get_3d_kps\<close> of \<open>karl-homo-toy-cars.py\<close>
  returns on a list of keypoints what the \<open>get_3d_kps\<close> of \<open>utils/utils.py\<close>
  returns on the same keypoints with the two components of each exchanged: the first
  reads a keypoint as \<open>(row, column)\<close>, the second as \<open>(x, y)\<close>.
\<close>

theorem get_3d_kps_swapped_requests:
  "get_3d_kps_karl voxels kps = get_3d_kps_utils voxels (map prod.swap kps)"
  by (simp add: get_3d_kps_karl_def get_3d_kps_utils_def kps_loop_map)

text \<open>
  On the cloud \<open>[(1,0,5)]\<close> and the keypoint \<open>(1,0)\<close> the two functions differ.
\<close>

theorem get_3d_kps_differ_counterexample:
  "get_3d_kps_karl [(1, 0, 5)] [(1, 0)] = [] \<and> get_3d_kps_utils [(1, 0, 5)] [(1, 0)] = [(1, 0, 5)]"
  by (simp add: get_3d_kps_karl_def get_3d_kps_utils_def)

text \<open>
  Claim C10. Every point in the result of either \<open>get_3d_kps\<close> is an element of the
  input cloud, and so is the point \<open>find_closest_3d_match\<close> returns whenever it
  returns one.
\<close>

theorem lookups_return_cloud_points:
  "set (get_3d_kps_karl voxels kps) \<subseteq> set voxels
   \<and> set (get_3d_kps_utils voxels kps) \<subseteq> set voxels
   \<and> (find_closest_3d_match x0 y0 voxels = Inr p \<longrightarrow> p \<in> set voxels)"
proof -
  have a: "set (get_3d_kps_karl voxels kps) \<subseteq> set voxels"
    unfolding get_3d_kps_karl_def by (rule kps_loop_subset)
  have b: "set (get_3d_kps_utils voxels kps) \<subseteq> set voxels"
    unfolding get_3d_kps_utils_def by (rule kps_loop_subset)
  have c: "p \<in> set voxels" if "find_closest_3d_match x0 y0 voxels = Inr p"
    using that by (auto simp: find_closest_3d_match_def Let_def split: if_splits)
  from a b c show ?thesis by blast
qed

theorem lookups_return_cloud_points_witness:
  "find_closest_3d_match 5 5 [(10, 10, 1), (0, 0, 2), (5, 5, 3)] = Inr (10, 10, 1)
   \<and> (10, 10, 1) \<in> set [(10, 10, 1), (0, 0, 2), (5 :: int, 5 :: int, 3 :: int)]
   \<and> set (get_3d_kps_karl [(1, 0, 5), (0, 1, 5)] [(0, 1)]) \<subseteq> set [(1, 0, 5), (0, 1, 5)]"
proof -
  have e: "find_closest_3d_match 5 5 [(10, 10, 1), (0, 0, 2), (5, 5, 3)] = Inr (10, 10, 1)"
    by (simp add: find_closest_3d_match_def argmin_def upt_rec int64_def word_sless_alt)
  from lookups_return_cloud_points [of "[(10, 10, 1), (0, 0, 2), (5, 5, 3)]" "[]" 5 5 "(10, 10, 1)"] e
  have "(10, 10, 1) \<in> set [(10, 10, 1), (0, 0, 2), (5 :: int, 5 :: int, 3 :: int)]" by blast
  with e lookups_return_cloud_points [of "[(1, 0, 5), (0, 1, 5)]" "[(0, 1)]"]
  show ?thesis by blast
qed

text \<open>
  Claim C5 fails on the code. \<open>np.sum(..., axis=0)\<close> adds over the points instead of
  over the two coordinates, so \<open>argmin\<close> chooses between the two columns and the
  function returns row 0 or row 1 of the cloud. For the query \<open>(5, 5)\<close> on
  \<open>[(10,10,1), (0,0,2), (5,5,3)]\<close> the column sums are 50 and 50 and the result is
  \<open>(10,10,1)\<close>, at squared distance 50, although \<open>(5,5,3)\<close> is at distance 0. On the
  one-point cloud \<open>[(3,0,7)]\<close> with the query \<open>(0, 0)\<close> the sums are 9 and 0, the
  index is 1, and the read raises.
\<close>

theorem find_closest_3d_match_not_nearest:
  "find_closest_3d_match 5 5 [(10, 10, 1), (0, 0, 2), (5, 5, 3)] = Inr (10, 10, 1)
   \<and> nearestMatch_spec 5 5 [(10, 10, 1), (0, 0, 2), (5, 5, 3)] = Some (5, 5, 3)
   \<and> find_closest_3d_match 0 0 [(3, 0, 7)] = Inl IndexError
   \<and> nearestMatch_spec 0 0 [(3, 0, 7)] = Some (3, 0, 7)"
  by (simp add: find_closest_3d_match_def argmin_def upt_rec sq_dist_2d_def int64_def
      word_sless_alt)

section \<open>Properties of the transform applicators\<close>

lemma mat_vec_swap_xy:
  "mat_vec (swap_xy_axes H) (x, y, z, w)
     = swap_xy_vec (mat_vec H (y, x, z, w))"
  by (cases H rule: prod_cases4)
     (auto simp: mat_vec_def swap_xy_axes_def swap_xy_vec_def dot4_def split: prod.splits)

text \<open>
  Claim C4, as the code has it. For every point \<open>(x, y, z)\<close> and every 4x4 matrix
  \<open>M\<close>, both applicators homogenize the point with its first two components
  exchanged, to \<open>(y, x, z, 1)\<close>, multiply it by \<open>M\<close>, and exchange the first two
  components of the product again: with \<open>(r0, r1, r2, r3)\<close> the product, the
  non-normalizing variant returns \<open>(r1, r0, r2)\<close> and the normalizing variant
  \<open>(r1 / r3, r0 / r3, r2 / r3)\<close>. This is the applicator of the specification for
  the matrix \<open>M\<close> with its first two rows and its first two columns exchanged.
\<close>

theorem get_transformed_points_swapped_axes:
  "map Some (get_transformed_points_utils keypoints H) = apply_spec (swap_xy_axes H) keypoints False
   \<and> get_transformed_points_karl keypoints H = apply_spec (swap_xy_axes H) keypoints True"
  by (auto simp: get_transformed_points_utils_def get_transformed_points_karl_def
      apply_spec_def apply_rigid_spec_def mat_vec_swap_xy swap_xy_vec_def Let_def
      split: prod.splits)

text \<open>
  A matrix that translates by \<open>(1, 0, 0)\<close> moves the origin to \<open>(0, 1, 0)\<close> in
  both variants, where the product with \<open>(x, y, z, 1)\<close> gives \<open>(1, 0, 0)\<close>.
\<close>

theorem get_transformed_points_order_counterexample:
  "get_transformed_points_utils [(0, 0, 0)] (translation4 1 0 0) = [(0, 1, 0)]
   \<and> apply_spec (translation4 1 0 0) [(0, 0, 0)] False = [Some (1, 0, 0)]
   \<and> get_transformed_points_karl [(0, 0, 0)] (translation4 1 0 0) = [Some (0, 1, 0)]
   \<and> apply_spec (translation4 1 0 0) [(0, 0, 0)] True = [Some (1, 0, 0)]"
  by (simp add: get_transformed_points_utils_def get_transformed_points_karl_def
      apply_spec_def apply_rigid_spec_def translation4_def mat_vec_def dot4_def)

text \<open>
  Claim C6. For every cloud, both applicators return, with the identity matrix, the
  input cloud itself, point for point and in the same order (the normalizing variant
  divides by a fourth component equal to 1). Equality over the reals gives equality
  within any tolerance.
\<close>

theorem identity_transform_keeps_cloud:
  "get_transformed_points_utils cloud identity4 = cloud
   \<and> get_transformed_points_karl cloud identity4 = map Some cloud"
proof -
  have "mat_vec identity4 (a, b, c, 1) = (a, b, c, 1)" for a b c
    by (simp add: identity4_def mat_vec_def dot4_def)
  then show ?thesis
    by (simp add: get_transformed_points_utils_def get_transformed_points_karl_def
        map_idI split_beta)
qed

section \<open>Properties of the sequence loops\<close>

lemma registration_steps_result:
  assumes "\<forall>i \<in> set idxs. i \<noteq> 0 \<longrightarrow> i - 1 < length h_matrixes"
  shows "registration_steps app input_voxels h_matrixes idxs new_3d_pts
         = Inr (new_3d_pts @ map (\<lambda>i. app (input_voxels ! i) (h_matrixes ! (i - 1)))
                               (filter (\<lambda>i. i \<noteq> 0) idxs))"
  using assms by (induction idxs arbitrary: new_3d_pts) simp_all

lemma filter_nonzero_upt: "filter (\<lambda>i. i \<noteq> 0) [0..<n] = [1..<n]"
proof (cases n)
  case 0
  then show ?thesis by simp
next
  case (Suc m)
  have "filter (\<lambda>i. i \<noteq> 0) [Suc 0..<Suc m] = [Suc 0..<Suc m]"
    by (rule filter_True) auto
  then show ?thesis by (simp add: Suc upt_rec [of 0])
qed

text \<open>
  Claim C1, as the code has it. For every non-empty frame sequence with a transform for
  each frame but the first, the registration loop emits frame 0's cloud unchanged, and
  for every frame \<open>i > 0\<close> the raw cloud of frame \<open>i\<close> transformed by the single
  pairwise transform \<open>h_matrixes[i-1]\<close> (frame \<open>i\<close> onto frame \<open>i-1\<close>), whatever
  the applicator is; no transform of an earlier pair is applied to it. Over 3 frames
  whose two pairwise transforms are the translation \<open>(1, 0, 0)\<close>, frame 2's output
  sits at offset \<open>(1, 0, 0)\<close> from its raw coordinates.
\<close>

theorem registration_loop_single_transform:
  assumes "input_voxels \<noteq> []" and "length input_voxels - 1 \<le> length h_matrixes"
  shows "registration_loop app input_voxels h_matrixes
         = Inr (input_voxels ! 0 #
                map (\<lambda>i. app (input_voxels ! i) (h_matrixes ! (i - 1))) [1..<length input_voxels])"
proof -
  obtain v0 vs where v: "input_voxels = v0 # vs" using assms(1) by (cases input_voxels) auto
  have "\<forall>i \<in> set [0..<length input_voxels]. i \<noteq> 0 \<longrightarrow> i - 1 < length h_matrixes"
    using assms(2) by auto
  from registration_steps_result [OF this, of app input_voxels "[v0]"]
  have "registration_steps app input_voxels h_matrixes [0..<length input_voxels] [v0]
        = Inr ([v0] @ map (\<lambda>i. app (input_voxels ! i) (h_matrixes ! (i - 1)))
                        [1..<length input_voxels])"
    by (simp only: filter_nonzero_upt)
  moreover have "registration_loop app input_voxels h_matrixes
        = registration_steps app input_voxels h_matrixes [0..<length input_voxels] [v0]"
    unfolding registration_loop_def v by simp
  moreover have "input_voxels ! 0 = v0" by (simp add: v)
  ultimately show ?thesis by simp
qed

theorem registration_loop_single_transform_witness:
  "[[(0, 0, 0)], [(0, 0, 0)], [(0, 0, 0 :: real)]] \<noteq> [] 
   \<and> registration_loop apply_rigid_spec [[(0, 0, 0)], [(0, 0, 0)], [(0, 0, 0)]]
        [translation4 1 0 0, translation4 1 0 0]
      = Inr [[(0, 0, 0)], [(1, 0, 0)], [(1, 0, 0)]]"
proof -
  let ?vs = "[[(0, 0, 0)], [(0, 0, 0)], [(0, 0, 0)]] :: point list list"
  let ?hs = "[translation4 1 0 0, translation4 1 0 0]"
  have h1: "?vs \<noteq> []" by simp
  have h2: "length ?vs - 1 \<le> length ?hs" by simp
  have a: "apply_rigid_spec [(0, 0, 0)] (translation4 1 0 0) = [(1, 0, 0)]"
    by (simp add: apply_rigid_spec_def translation4_def mat_vec_def dot4_def)
  have u: "[1..<3] = [1, 2 :: nat]" by (simp add: upt_rec)
  show ?thesis
    using registration_loop_single_transform [OF h1 h2, of apply_rigid_spec] a u
    by simp
qed

text \<open>
  With the composition of the pairwise transforms frame 2 would sit at offset
  \<open>(2, 0, 0)\<close>.
\<close>

theorem registration_loop_composition_counterexample:
  "registration_loop apply_rigid_spec [[(0, 0, 0)], [(0, 0, 0)], [(0, 0, 0)]]
        [translation4 1 0 0, translation4 1 0 0]
      = Inr [[(0, 0, 0)], [(1, 0, 0)], [(1, 0, 0)]]
   \<and> registerSequence_spec apply_rigid_spec [[(0, 0, 0)], [(0, 0, 0)], [(0, 0, 0)]]
        [translation4 1 0 0, translation4 1 0 0]
      = [[(0, 0, 0)], [(1, 0, 0)], [(2, 0, 0)]]"
proof -
  have a: "apply_rigid_spec [(0, 0, 0)] (translation4 1 0 0) = [(1, 0, 0)]"
    by (simp add: apply_rigid_spec_def translation4_def mat_vec_def dot4_def)
  have b: "apply_rigid_spec [(1, 0, 0)] (translation4 1 0 0) = [(2, 0, 0)]"
    by (simp add: apply_rigid_spec_def translation4_def mat_vec_def dot4_def)
  have "registration_loop apply_rigid_spec [[(0, 0, 0)], [(0, 0, 0)], [(0, 0, 0)]]
        [translation4 1 0 0, translation4 1 0 0]
      = Inr [[(0, 0, 0)], [(1, 0, 0)], [(1, 0, 0)]]"
    by (simp add: registration_loop_def upt_rec a)
  moreover have "registerSequence_spec apply_rigid_spec [[(0, 0, 0)], [(0, 0, 0)], [(0, 0, 0)]]
        [translation4 1 0 0, translation4 1 0 0]
      = [[(0, 0, 0)], [(1, 0, 0)], [(2, 0, 0)]]"
    by (simp add: registerSequence_spec_def upt_rec a b take_Suc_conv_app_nth numeral_2_eq_2)
  ultimately show ?thesis by simp
qed

text \<open>
  Claim C3 fails on the code. The loop over the image pairs takes the images
  \<open>cv2_imgs[i]\<close> and \<open>cv2_imgs[i+1]\<close>, but looks the keypoints up in
  \<open>input_voxels[0]\<close> and \<open>input_voxels[1]\<close> in every iteration. With three frames
  whose clouds are \<open>[(0,0,10)]\<close>, \<open>[(0,0,20)]\<close> and \<open>[(0,0,30)]\<close>, a detector
  that finds the keypoint \<open>(0, 0)\<close> in every image, and a solver that returns the two
  lists it is given, the second pair (frames 1 and 2) is solved from the points of
  frames 0 and 1: the cloud of frame 2 is never read.
\<close>

theorem h_matrix_loop_fixed_clouds:
  "h_matrix_loop (\<lambda>a b. ([(0, 0)], [(0, 0)], [(0, 0)])) (\<lambda>src tgt. Inr (src, tgt))
     [''toycar_1'', ''toycar_2'', ''toycar_3'']
     [[(0, 0, 10)], [(0, 0, 20)], [(0, 0, 30)]]
   = Inr [([(0, 0, 20)], [(0, 0, 10)]), ([(0, 0, 20)], [(0, 0, 10)])]"
  by (simp add: h_matrix_loop_def h_matrix_body_def get_3d_kps_karl_def upt_rec)

end
